theory Spec2Isabelle
  imports Main "HOL-Library.Word"
begin

section \<open>Python values and exceptions\<close>

text \<open>
  The scalar values that travel through \<open>TypesManager\<close> and \<open>config_manager\<close>.
  A \<open>Decimal\<close> is its sign, coefficient and exponent; a \<open>float\<close> is carried as its
  64-bit pattern and no arithmetic or printing of floats is embedded.
\<close>

datatype pydec = Dec (dsign: bool) (dcoeff: nat) (dexp: int)

datatype pyval =
    VNone
  | VBool bool
  | VInt int
  | VFloat "64 word"
  | VStr string
  | VDecimal pydec

text \<open>
  Exceptions are values. \<open>Unmodelled\<close> is not a Python exception: it marks an input on
  which a library function (\<open>ast.literal_eval\<close>, \<open>Decimal\<close>, \<open>str\<close> of a float, a regular
  expression with metacharacters) is not embedded here.
\<close>

datatype pyexn =
    ValueError
  | SyntaxError
  | TypeError
  | KeyError
  | FileNotFoundError
  | InvalidOperation
  | OperationalError
  | AttributeError
  | OtherError string
  | Unmodelled

text \<open>\<open>isinstance(v, str)\<close>.\<close>

definition is_text :: "pyval \<Rightarrow> bool" where
  "is_text v = (case v of VStr s \<Rightarrow> True | _ \<Rightarrow> False)"

definition bind_r :: "pyexn + 'a \<Rightarrow> ('a \<Rightarrow> pyexn + 'b) \<Rightarrow> pyexn + 'b" where
  "bind_r r f = (case r of Inl e \<Rightarrow> Inl e | Inr x \<Rightarrow> f x)"

section \<open>Characters and digits\<close>

definition SQ :: char where "SQ = CHR 0x27"
definition DQ :: char where "DQ = CHR 0x22"
definition NL :: char where "NL = CHR 0x0A"

definition is_digit :: "char \<Rightarrow> bool" where
  "is_digit c = (48 \<le> (of_char c :: nat) \<and> (of_char c :: nat) \<le> 57)"

definition is_alpha :: "char \<Rightarrow> bool" where
  "is_alpha c = ((65 \<le> (of_char c :: nat) \<and> (of_char c :: nat) \<le> 90)
               \<or> (97 \<le> (of_char c :: nat) \<and> (of_char c :: nat) \<le> 122))"

definition is_ident_start :: "char \<Rightarrow> bool" where
  "is_ident_start c = (is_alpha c \<or> c = CHR ''_'')"

definition is_ident_char :: "char \<Rightarrow> bool" where
  "is_ident_char c = (is_alpha c \<or> is_digit c \<or> c = CHR ''_'')"

definition digit_char :: "nat \<Rightarrow> char" where
  "digit_char d = char_of (48 + d)"

definition digit_val :: "char \<Rightarrow> nat" where
  "digit_val c = of_char c - 48"

fun str_nat :: "nat \<Rightarrow> string" where
  "str_nat n = (if n < 10 then [digit_char n] else str_nat (n div 10) @ [digit_char (n mod 10)])"

declare str_nat.simps [simp del]

definition nat_of_digits :: "string \<Rightarrow> nat" where
  "nat_of_digits ds = foldl (\<lambda>a c. 10 * a + digit_val c) 0 ds"

text \<open>\<open>str(n)\<close> for a Python int.\<close>

definition str_int :: "int \<Rightarrow> string" where
  "str_int i = (if i < 0 then CHR ''-'' # str_nat (nat (- i)) else str_nat (nat i))"

section \<open>The library functions the codec calls\<close>

subsection \<open>\<open>ast.literal_eval\<close>, on a fragment of Python's expression syntax\<close>

definition kwlist :: "string list" where
  "kwlist = [''False'', ''None'', ''True'', ''and'', ''as'', ''assert'', ''async'', ''await'',
     ''break'', ''class'', ''continue'', ''def'', ''del'', ''elif'', ''else'', ''except'',
     ''finally'', ''for'', ''from'', ''global'', ''if'', ''import'', ''in'', ''is'', ''lambda'',
     ''nonlocal'', ''not'', ''or'', ''pass'', ''raise'', ''return'', ''try'', ''while'', ''with'',
     ''yield'']"

definition is_name :: "string \<Rightarrow> bool" where
  "is_name s = (case s of [] \<Rightarrow> False
     | c # cs \<Rightarrow> is_ident_start c \<and> list_all is_ident_char cs \<and> s \<notin> set kwlist)"

definition is_nat_literal :: "string \<Rightarrow> bool" where
  "is_nat_literal s = (case s of [] \<Rightarrow> False
     | c # cs \<Rightarrow> list_all is_digit s \<and> (c \<noteq> CHR ''0'' \<or> cs = []))"

definition is_plain_char :: "char \<Rightarrow> bool" where
  "is_plain_char c = (32 \<le> (of_char c :: nat) \<and> (of_char c :: nat) \<le> 126 \<and> c \<noteq> CHR 0x5C)"

text \<open>A one-line string literal without escapes: a quote, a body free of that quote, the quote.\<close>

definition quoted_body :: "string \<Rightarrow> string option" where
  "quoted_body s = (case s of [] \<Rightarrow> None
     | q # r \<Rightarrow>
        if (q = SQ \<or> q = DQ) \<and> r \<noteq> [] \<and> last r = q
           \<and> list_all (\<lambda>c. is_plain_char c \<and> c \<noteq> q) (butlast r)
        then Some (butlast r) else None)"

fun split_on :: "char \<Rightarrow> string \<Rightarrow> string list" where
  "split_on d [] = [[]]"
| "split_on d (c # cs) =
     (if c = d then [] # split_on d cs
      else (case split_on d cs of w # ws \<Rightarrow> (c # w) # ws | [] \<Rightarrow> [[c]]))"

text \<open>
  The fragment, case by case: the three constants; a decimal integer with an optional
  minus sign; a one-line string literal without escapes; a bare name or a dotted chain of
  names, which parses to a \<open>Name\<close> or \<open>Attribute\<close> node and is refused with \<open>ValueError\<close>;
  the empty text, two or more names separated by single blanks, and a word with one
  apostrophe (an unterminated string literal), which do not parse and raise \<open>SyntaxError\<close>.
  Every other text is outside the fragment and yields \<open>Unmodelled\<close>. The limit that
  CPython 3.11 puts on the number of digits of an integer literal is not embedded.
\<close>

definition literal_eval :: "string \<Rightarrow> pyexn + pyval" where
  "literal_eval s =
    (if s = ''None'' then Inr VNone
     else if s = ''True'' then Inr (VBool True)
     else if s = ''False'' then Inr (VBool False)
     else if is_nat_literal s then Inr (VInt (int (nat_of_digits s)))
     else if s \<noteq> [] \<and> hd s = CHR ''-'' \<and> is_nat_literal (tl s)
       then Inr (VInt (- int (nat_of_digits (tl s))))
     else (case quoted_body s of Some b \<Rightarrow> Inr (VStr b)
       | None \<Rightarrow>
          if is_name s then Inl ValueError
          else if 2 \<le> length (split_on CHR ''.'' s) \<and> list_all is_name (split_on CHR ''.'' s)
            then Inl ValueError
          else if s = [] then Inl SyntaxError
          else if 2 \<le> length (split_on CHR '' '' s) \<and> list_all is_name (split_on CHR '' '' s)
            then Inl SyntaxError
          else if list_all (\<lambda>c. is_ident_char c \<or> c = SQ) s \<and> count_list s SQ = 1
            then Inl SyntaxError
          else Inl Unmodelled))"

subsection \<open>\<open>Decimal(text)\<close> and \<open>str(Decimal)\<close>, in plain notation\<close>

definition to_lower :: "char \<Rightarrow> char" where
  "to_lower c = (if 65 \<le> (of_char c :: nat) \<and> (of_char c :: nat) \<le> 90
                 then char_of ((of_char c :: nat) + 32) else c)"

text \<open>
  \<open>Decimal(s)\<close> for \<open>s\<close> of the shape \<open>[-]digits[.digits]\<close>; the empty text and a word of
  letters other than \<open>inf\<close>, \<open>infinity\<close>, \<open>nan\<close>, \<open>snan\<close> raise \<open>InvalidOperation\<close>.
\<close>

definition decimal_of_str :: "string \<Rightarrow> pyexn + pydec" where
  "decimal_of_str s =
    (let sg = (s \<noteq> [] \<and> hd s = CHR ''-'');
         body = (if sg then tl s else s);
         ip = takeWhile is_digit body;
         rest = dropWhile is_digit body
     in if ip \<noteq> [] \<and> rest = [] then Inr (Dec sg (nat_of_digits ip) 0)
        else if ip \<noteq> [] \<and> hd rest = CHR ''.'' \<and> tl rest \<noteq> [] \<and> list_all is_digit (tl rest)
          then Inr (Dec sg (nat_of_digits (ip @ tl rest)) (- int (length (tl rest))))
        else if s = [] then Inl InvalidOperation
        else if list_all is_alpha s
                \<and> map to_lower s \<notin> {''inf'', ''infinity'', ''nan'', ''snan''}
          then Inl InvalidOperation
        else Inl Unmodelled)"

text \<open>
  \<open>str(d)\<close>: the scientific-string conversion of the decimal module, in the range where it
  uses no exponent (exponent at most 0 and more than -6 digits left of the point).
\<close>

definition str_decimal :: "pydec \<Rightarrow> pyexn + string" where
  "str_decimal d =
    (let digits = str_nat (dcoeff d);
         leftdigits = dexp d + int (length digits);
         sign = (if dsign d then ''-'' else '''')
     in if dexp d \<le> 0 \<and> leftdigits > - 6 then
          (if leftdigits \<le> 0
             then Inr (sign @ ''0'' @ ''.'' @ replicate (nat (- leftdigits)) CHR ''0'' @ digits)
           else if leftdigits \<ge> int (length digits)
             then Inr (sign @ digits)
           else Inr (sign @ take (nat leftdigits) digits @ ''.'' @ drop (nat leftdigits) digits))
        else Inl Unmodelled)"

text \<open>\<open>Decimal(v)\<close> for a value that is not a float.\<close>

definition Decimal_of :: "pyval \<Rightarrow> pyexn + pydec" where
  "Decimal_of v = (case v of
       VInt i \<Rightarrow> Inr (Dec (i < 0) (nat \<bar>i\<bar>) 0)
     | VBool b \<Rightarrow> Inr (Dec False (if b then 1 else 0) 0)
     | VDecimal d \<Rightarrow> Inr d
     | VStr s \<Rightarrow> decimal_of_str s
     | VNone \<Rightarrow> Inl TypeError
     | VFloat x \<Rightarrow> Inl Unmodelled)"

text \<open>\<open>str(v)\<close>, which is also how an f-string renders \<open>v\<close>.\<close>

definition str_of :: "pyval \<Rightarrow> pyexn + string" where
  "str_of v = (case v of
       VNone \<Rightarrow> Inr ''None''
     | VBool b \<Rightarrow> Inr (if b then ''True'' else ''False'')
     | VInt i \<Rightarrow> Inr (str_int i)
     | VStr s \<Rightarrow> Inr s
     | VDecimal d \<Rightarrow> str_decimal d
     | VFloat x \<Rightarrow> Inl Unmodelled)"

subsection \<open>Leftmost regular-expression search\<close>

text \<open>\<open>re.search\<close>: the first position, from the left, where the anchored matcher succeeds.\<close>

fun re_search :: "(string \<Rightarrow> 'a option) \<Rightarrow> string \<Rightarrow> 'a option" where
  "re_search m [] = m []"
| "re_search m (c # cs) = (case m (c # cs) of Some r \<Rightarrow> Some r | None \<Rightarrow> re_search m cs)"

text \<open>
  The pattern \<open>Decimal\('([^']+)'\)\<close> anchored at the head of the text: the greedy run of
  characters other than the apostrophe must be non-empty and be followed by \<open>')\<close>. The
  result is group 1.
\<close>

definition match_decimal :: "string \<Rightarrow> string option" where
  "match_decimal s =
    (if take 9 s = ''Decimal('' @ [SQ] then
       (let g = takeWhile (\<lambda>c. c \<noteq> SQ) (drop 9 s);
            r = dropWhile (\<lambda>c. c \<noteq> SQ) (drop 9 s)
        in if g \<noteq> [] \<and> take 2 r = [SQ, CHR '')''] then Some g else None)
     else None)"

section \<open>\<open>_TypesHandler\<close> and \<open>TypesManager\<close>\<close>

record TypesHandler =
  value' :: pyval
  as_decimal :: bool
  as_string :: bool
  quoting :: bool

text \<open>
  \<open>__type_parser\<close>: a non-string raises \<open>TypeError\<close>; a text holding a Decimal literal
  becomes that decimal (\<open>InvalidOperation\<close> is not caught here); otherwise the text goes
  through \<open>ast.literal_eval\<close>, and only \<open>ValueError\<close> is caught, leaving the text as it is.
\<close>

definition type_parser :: "TypesHandler \<Rightarrow> pyexn + TypesHandler" where
  "type_parser h = (case value' h of
      VStr s \<Rightarrow>
        (case re_search match_decimal s of
           Some g \<Rightarrow> bind_r (decimal_of_str g) (\<lambda>d. Inr (h\<lparr>value' := VDecimal d\<rparr>))
         | None \<Rightarrow>
            (case literal_eval s of
               Inr v \<Rightarrow> Inr (h\<lparr>value' := v\<rparr>)
             | Inl ValueError \<Rightarrow> Inr h
             | Inl e \<Rightarrow> Inl e))
    | _ \<Rightarrow> Inl TypeError)"

text \<open>\<open>__to_decimal\<close>: a float goes through its \<open>str\<close>; \<open>InvalidOperation\<close> becomes \<open>TypeError\<close>.\<close>

definition to_decimal :: "TypesHandler \<Rightarrow> pyexn + TypesHandler" where
  "to_decimal h =
    (case (case value' h of
             VFloat x \<Rightarrow> bind_r (str_of (VFloat x)) decimal_of_str
           | v \<Rightarrow> Decimal_of v) of
       Inr d \<Rightarrow> Inr (h\<lparr>value' := VDecimal d\<rparr>)
     | Inl InvalidOperation \<Rightarrow> Inl TypeError
     | Inl e \<Rightarrow> Inl e)"

text \<open>
  \<open>__to_string\<close>: a text stays, a decimal is rendered as \<open>Decimal('...')\<close>, every other
  type misses the table and is rendered by \<open>str\<close>.
\<close>

definition to_string :: "TypesHandler \<Rightarrow> pyexn + TypesHandler" where
  "to_string h = (case value' h of
      VStr s \<Rightarrow> Inr (h\<lparr>value' := VStr s\<rparr>)
    | VDecimal d \<Rightarrow>
        bind_r (str_decimal d) (\<lambda>t. Inr (h\<lparr>value' := VStr (''Decimal('' @ [SQ] @ t @ [SQ] @ '')'')\<rparr>))
    | v \<Rightarrow> bind_r (str_of v) (\<lambda>t. Inr (h\<lparr>value' := VStr t\<rparr>)))"

text \<open>
  \<open>__quote\<close>: the membership test \<open>"'" in value\<close> raises \<open>TypeError\<close> on a value that is
  not a text, which is caught and raised again as \<open>TypeError\<close>.
\<close>

definition quote :: "TypesHandler \<Rightarrow> pyexn + TypesHandler" where
  "quote h = (case value' h of
      VStr s \<Rightarrow>
        if SQ \<in> set s then Inr (h\<lparr>value' := VStr ([DQ] @ s @ [DQ])\<rparr>)
        else Inr (h\<lparr>value' := VStr ([SQ] @ s @ [SQ])\<rparr>)
    | _ \<Rightarrow> Inl TypeError)"

text \<open>\<open>__types_converting\<close>: parse a text first, then the table of the eight flag triples.\<close>

definition types_converting :: "TypesHandler \<Rightarrow> pyexn + TypesHandler" where
  "types_converting h0 =
    bind_r (case value' h0 of VStr s \<Rightarrow> type_parser h0 | _ \<Rightarrow> Inr h0) (\<lambda>h.
      (case (as_decimal h, as_string h, quoting h) of
         (False, False, False) \<Rightarrow> Inr h
       | (True, False, False) \<Rightarrow> to_decimal h
       | (False, True, False) \<Rightarrow> to_string h
       | (False, False, True) \<Rightarrow> quote h
       | (True, True, False) \<Rightarrow> bind_r (to_decimal h) to_string
       | (False, True, True) \<Rightarrow> bind_r (to_string h) quote
       | (True, False, True) \<Rightarrow> bind_r (to_decimal h) quote
       | (True, True, True) \<Rightarrow> bind_r (bind_r (to_decimal h) to_string) quote))"

text \<open>\<open>type(v)(v)\<close>: each scalar type's constructor returns an equal value of that type.\<close>

definition reconstruct :: "pyval \<Rightarrow> pyval" where
  "reconstruct v = (case v of
       VNone \<Rightarrow> VNone
     | VBool b \<Rightarrow> VBool b
     | VInt i \<Rightarrow> VInt i
     | VFloat x \<Rightarrow> VFloat x
     | VStr s \<Rightarrow> VStr s
     | VDecimal d \<Rightarrow> VDecimal d)"

text \<open>\<open>TypesManager.__new__\<close>.\<close>

definition TypesManager :: "pyval \<Rightarrow> bool \<Rightarrow> bool \<Rightarrow> bool \<Rightarrow> pyexn + pyval" where
  "TypesManager v dec str quot =
    bind_r (types_converting \<lparr>value' = v, as_decimal = dec, as_string = str, quoting = quot\<rparr>) (\<lambda>h.
      if value' h \<noteq> VNone then Inr (reconstruct (value' h)) else Inr VNone)"

text \<open>The codec's two directions, as the specification names them.\<close>

definition decode :: "string \<Rightarrow> pyexn + pyval" where
  "decode s = TypesManager (VStr s) False False False"

definition encode :: "pyval \<Rightarrow> bool \<Rightarrow> bool \<Rightarrow> bool \<Rightarrow> pyexn + pyval" where
  "encode v dec str quot = TypesManager v dec str quot"

section \<open>The process and its files\<close>

text \<open>
  What the functions below read and change: the text of the configuration file at
  \<open>CONFIG_DIR\<close> (\<open>None\<close> when the file is missing), the credentials file at
  \<open>CREDENTIALS_DIR\<close> (its \<open>login\<close>, \<open>password\<close> and \<open>db_name\<close> when it exists), whether the
  SQLite database file exists, the attribute \<open>db_access.engine_string\<close> (\<open>None\<close> until it
  is set), and counters of how often each file has been touched. Log records are left out.
\<close>

record world =
  config_file :: "string option"
  credentials_file :: "(string \<times> string \<times> string) option"
  sqlite_file :: bool
  engine_string :: "string option"
  config_reads :: nat
  config_writes :: nat
  credentials_accesses :: nat

section \<open>\<open>config_manager\<close>\<close>

text \<open>
  The pattern \<open>(?P<name>param) = (?P<value>.+)\n\<close> anchored at the head of the text, for a
  \<open>param\<close> made of letters, digits and underscores, which then stands for itself in the
  pattern. The dot does not match a newline, so the value is the non-empty run of
  characters up to the first newline, and that newline must be there. The result is the
  group \<open>value\<close>; the group \<open>name\<close> is \<open>param\<close>.
\<close>

definition is_literal_pattern :: "string \<Rightarrow> bool" where
  "is_literal_pattern p = list_all is_ident_char p"

definition match_param :: "string \<Rightarrow> string \<Rightarrow> string option" where
  "match_param param s =
    (let k = length param + 3 in
     if take k s = param @ '' = '' then
       (let v = takeWhile (\<lambda>c. c \<noteq> NL) (drop k s);
            r = dropWhile (\<lambda>c. c \<noteq> NL) (drop k s)
        in if v \<noteq> [] \<and> r \<noteq> [] then Some v else None)
     else None)"

text \<open>\<open>s.replace(old, new, 1)\<close>: the first occurrence of \<open>old\<close>, from the left.\<close>

fun replace_first :: "string \<Rightarrow> string \<Rightarrow> string \<Rightarrow> string" where
  "replace_first old new [] = (if old = [] then new else [])"
| "replace_first old new (c # cs) =
     (if take (length old) (c # cs) = old then new @ drop (length old) (c # cs)
      else c # replace_first old new cs)"

text \<open>
  The rewrite both versions of \<open>config_manager\<close> end with: render the new value, replace the
  first occurrence of \<open>name = value\<close>, truncate the file and write it back. The function
  returns \<open>None\<close>.
\<close>

definition write_param :: "string \<Rightarrow> string \<Rightarrow> string \<Rightarrow> pyval \<Rightarrow> world \<Rightarrow> (pyexn + pyval) \<times> world" where
  "write_param param v data new_val w =
    (case str_of new_val of
       Inl e \<Rightarrow> (Inl e, w)
     | Inr t \<Rightarrow>
        (Inr VNone,
         w\<lparr>config_file := Some (replace_first (param @ '' = '' @ v) (param @ '' = '' @ t) data),
           config_writes := config_writes w + 1\<rparr>))"

text \<open>
  \<open>config_manager\<close> of \<open>src/shortcircuitcalc/tools/tools.py\<close>. With a matching line and no
  new value it decodes the line's value; without a matching line it returns \<open>None\<close>;
  otherwise it rewrites the file. There the new value goes through
  \<open>TypesManager\<close> once; a text is then quoted, and every other type misses the table
  \<open>__formats\<close>, whose \<open>KeyError\<close> is caught and answered by stringification.
\<close>

definition config_manager :: "string \<Rightarrow> pyval \<Rightarrow> world \<Rightarrow> (pyexn + pyval) \<times> world" where
  "config_manager param new_val w =
    (if \<not> is_literal_pattern param then (Inl Unmodelled, w)
     else case config_file w of
       None \<Rightarrow> (Inl FileNotFoundError, w)
     | Some data \<Rightarrow>
        (let w1 = w\<lparr>config_reads := config_reads w + 1\<rparr>;
             matched_param = re_search (match_param param) data
         in case matched_param of
              None \<Rightarrow> (Inr VNone, w1)
            | Some v \<Rightarrow>
               if new_val = VNone then (TypesManager (VStr v) False False False, w1)
               else
                 (case bind_r (TypesManager new_val False False False) (\<lambda>nv.
                         if is_text nv then TypesManager nv False False True
                         else TypesManager nv False True False) of
                    Inl e \<Rightarrow> (Inl e, w1)
                  | Inr nv \<Rightarrow> write_param param v data nv w1)))"

text \<open>
  \<open>config_manager\<close> of \<open>src/ShortCircuitCalc/tools/tools.py\<close>, which \<open>db_access\<close> of that
  file calls. Only a text or a decimal is formatted before it is written.
\<close>

definition config_manager_SCC :: "string \<Rightarrow> pyval \<Rightarrow> world \<Rightarrow> (pyexn + pyval) \<times> world" where
  "config_manager_SCC param new_val w =
    (if \<not> is_literal_pattern param then (Inl Unmodelled, w)
     else case config_file w of
       None \<Rightarrow> (Inl FileNotFoundError, w)
     | Some data \<Rightarrow>
        (let w1 = w\<lparr>config_reads := config_reads w + 1\<rparr>;
             matched_param = re_search (match_param param) data
         in case matched_param of
              None \<Rightarrow> (Inr VNone, w1)
            | Some v \<Rightarrow>
               if new_val = VNone then (TypesManager (VStr v) False False False, w1)
               else
                 (case (case new_val of
                          VStr s \<Rightarrow> TypesManager new_val False False True
                        | VDecimal d \<Rightarrow> TypesManager new_val False True False
                        | _ \<Rightarrow> Inr new_val) of
                    Inl e \<Rightarrow> (Inl e, w1)
                  | Inr nv \<Rightarrow> write_param param v data nv w1)))"

section \<open>\<open>db_access\<close>\<close>

text \<open>
  \<open>db_access\<close> of \<open>src/ShortCircuitCalc/tools/tools.py\<close>. The constants \<open>ROOT_DIR\<close> and
  \<open>SQLITE_DB_NAME\<close> come from the module \<open>ShortCircuitCalc.config\<close> and are parameters here.
\<close>

record config_consts =
  ROOT_DIR :: string
  SQLITE_DB_NAME :: string

definition DB_EXISTING_CONNECTION :: string where
  "DB_EXISTING_CONNECTION = ''DB_EXISTING_CONNECTION''"

text \<open>
  \<open>__mysql_access\<close>: opening a missing credentials file raises \<open>FileNotFoundError\<close>; otherwise
  the engine string is built, an existing SQLite database file is deleted, and the stored
  connection is set to \<open>MySQL\<close> unless it already is.
\<close>

definition mysql_access :: "config_consts \<Rightarrow> world \<Rightarrow> (pyexn + string) \<times> world" where
  "mysql_access K w =
    (case credentials_file w of
       None \<Rightarrow> (Inl FileNotFoundError, w\<lparr>credentials_accesses := credentials_accesses w + 1\<rparr>)
     | Some (login, password, db_name) \<Rightarrow>
        (let engine = ''mysql+pymysql://'' @ login @ '':'' @ password @ ''@localhost/'' @ db_name
                        @ ''?charset=utf8mb4'';
             w1 = w\<lparr>credentials_accesses := credentials_accesses w + 1\<rparr>;
             w2 = (if sqlite_file w1 then w1\<lparr>sqlite_file := False\<rparr> else w1)
         in case config_manager_SCC DB_EXISTING_CONNECTION VNone w2 of
              (Inl e, w3) \<Rightarrow> (Inl e, w3)
            | (Inr cur, w3) \<Rightarrow>
               if cur \<noteq> VStr ''MySQL'' then
                 (case config_manager_SCC DB_EXISTING_CONNECTION (VStr ''MySQL'') w3 of
                    (Inl e, w4) \<Rightarrow> (Inl e, w4)
                  | (Inr u, w4) \<Rightarrow> (Inr engine, w4))
               else (Inr engine, w3)))"

text \<open>\<open>__sqlite_access\<close>.\<close>

definition sqlite_access :: "config_consts \<Rightarrow> world \<Rightarrow> (pyexn + string) \<times> world" where
  "sqlite_access K w =
    (case config_manager_SCC DB_EXISTING_CONNECTION VNone w of
       (Inl e, w1) \<Rightarrow> (Inl e, w1)
     | (Inr cur, w1) \<Rightarrow>
        if cur \<noteq> VStr ''SQLite'' then
          (case config_manager_SCC DB_EXISTING_CONNECTION (VStr ''SQLite'') w1 of
             (Inl e, w2) \<Rightarrow> (Inl e, w2)
           | (Inr u, w2) \<Rightarrow> (Inr (''sqlite:///'' @ ROOT_DIR K @ ''/'' @ SQLITE_DB_NAME K), w2))
        else (Inr (''sqlite:///'' @ ROOT_DIR K @ ''/'' @ SQLITE_DB_NAME K), w1))"

text \<open>\<open>__no_db_access\<close>: MySQL first, SQLite when that raises \<open>FileNotFoundError\<close>.\<close>

definition no_db_access :: "config_consts \<Rightarrow> world \<Rightarrow> (pyexn + string) \<times> world" where
  "no_db_access K w =
    (case mysql_access K w of
       (Inl FileNotFoundError, w1) \<Rightarrow> sqlite_access K w1
     | (r, w1) \<Rightarrow> (r, w1))"

text \<open>
  The dictionary \<open>connection_types\<close>, with keys \<open>False\<close>, \<open>'MySQL'\<close> and \<open>'SQLite'\<close>. A key is
  found by hash and equality, so every number equal to \<open>False\<close> (the integer 0, a float
  zero of either sign, a decimal with coefficient 0) finds the entry of \<open>False\<close>. A missing
  key is \<open>None\<close> here and \<open>KeyError\<close> in the caller.
\<close>

definition equals_False :: "pyval \<Rightarrow> bool" where
  "equals_False v = (case v of
       VBool b \<Rightarrow> \<not> b
     | VInt i \<Rightarrow> i = 0
     | VFloat x \<Rightarrow> x = 0 \<or> x = 0x8000000000000000
     | VDecimal d \<Rightarrow> dcoeff d = 0
     | _ \<Rightarrow> False)"

definition connection_types ::
    "config_consts \<Rightarrow> pyval \<Rightarrow> (world \<Rightarrow> (pyexn + string) \<times> world) option" where
  "connection_types K k =
    (if equals_False k then Some (no_db_access K)
     else if k = VStr ''MySQL'' then Some (mysql_access K)
     else if k = VStr ''SQLite'' then Some (sqlite_access K)
     else None)"

text \<open>The body of the \<open>try\<close> statement in \<open>db_access\<close>, up to the assignment.\<close>

definition resolve :: "config_consts \<Rightarrow> world \<Rightarrow> (pyexn + string) \<times> world" where
  "resolve K w =
    (let w0 = w\<lparr>credentials_accesses := credentials_accesses w + 1\<rparr> in
     if credentials_file w \<noteq> None then mysql_access K w0
     else case config_manager_SCC DB_EXISTING_CONNECTION VNone w0 of
            (Inl e, w1) \<Rightarrow> (Inl e, w1)
          | (Inr k, w1) \<Rightarrow>
             (case connection_types K k of
                None \<Rightarrow> (Inl KeyError, w1)
              | Some access \<Rightarrow> access w1))"

text \<open>
  \<open>db_access\<close>. The first argument bounds the depth of the call inside the handler of
  \<open>FileNotFoundError\<close>; \<open>None\<close> means the bound was reached. The handler resets the stored
  connection to \<open>False\<close>, calls \<open>db_access\<close> again and then returns the attribute.
\<close>

fun db_access :: "nat \<Rightarrow> config_consts \<Rightarrow> world \<Rightarrow> ((pyexn + string) \<times> world) option" where
  "db_access 0 K w = None"
| "db_access (Suc n) K w =
    (case engine_string w of
       Some es \<Rightarrow> Some (Inr es, w)
     | None \<Rightarrow>
        (case resolve K w of
           (Inr es, w1) \<Rightarrow> Some (Inr es, w1\<lparr>engine_string := Some es\<rparr>)
         | (Inl FileNotFoundError, w1) \<Rightarrow>
            (case config_manager_SCC DB_EXISTING_CONNECTION (VBool False) w1 of
               (Inl e, w2) \<Rightarrow> Some (Inl e, w2)
             | (Inr u, w2) \<Rightarrow>
                (case db_access n K w2 of
                   None \<Rightarrow> None
                 | Some (Inl e, w3) \<Rightarrow> Some (Inl e, w3)
                 | Some (Inr es', w3) \<Rightarrow>
                    (case engine_string w3 of
                       Some es \<Rightarrow> Some (Inr es, w3)
                     | None \<Rightarrow> Some (Inl AttributeError, w3))))
         | (Inl e, w1) \<Rightarrow> Some (Inl e, w1)))"

section \<open>\<open>session_scope\<close>\<close>

text \<open>
  \<open>session_scope\<close> of \<open>src/shortcircuitcalc/tools/tools.py\<close>. The session is the list of the
  calls made on it, in order. What each call and the unit of work (the body of the
  \<open>with\<close> statement, resumed at \<open>yield\<close>) does is given from outside: \<open>None\<close> when it returns,
  the exception when it raises. The parameter \<open>logs\<close> only selects logging.
\<close>

datatype session_call = Execute string | Commit | Rollback | Close

record session_env =
  execute_raises :: "pyexn option"
  work_raises :: "pyexn option"
  commit_raises :: "pyexn option"
  rollback_raises :: "pyexn option"
  close_raises :: "pyexn option"

text \<open>The \<open>try\<close> block: the exception that leaves it, if any, and the calls made.\<close>

definition session_try ::
    "session_env \<Rightarrow> world \<Rightarrow> pyexn option \<times> session_call list \<times> world" where
  "session_try env w =
    (case config_manager DB_EXISTING_CONNECTION VNone w of
       (Inl e, w1) \<Rightarrow> (Some e, [], w1)
     | (Inr k, w1) \<Rightarrow>
        (let calls = (if k = VStr ''SQLite'' then [Execute ''PRAGMA foreign_keys = ON;''] else [])
         in if k = VStr ''SQLite'' \<and> execute_raises env \<noteq> None
              then (execute_raises env, calls, w1)
            else case work_raises env of
                   Some e \<Rightarrow> (Some e, calls, w1)
                 | None \<Rightarrow> (commit_raises env, calls @ [Commit], w1)))"

text \<open>
  The handler of \<open>OperationalError\<close> rolls back and raises the exception again; the
  \<open>finally\<close> clause closes the session. An exception raised by \<open>rollback\<close> or \<open>close\<close>
  replaces the one in flight.
\<close>

definition session_scope ::
    "session_env \<Rightarrow> world \<Rightarrow> pyexn option \<times> session_call list \<times> world" where
  "session_scope env w =
    (case session_try env w of (r, calls, w1) \<Rightarrow>
       (let (r2, calls2) =
              (if r = Some OperationalError
               then (case rollback_raises env of
                       Some e \<Rightarrow> (Some e, calls @ [Rollback])
                     | None \<Rightarrow> (Some OperationalError, calls @ [Rollback]))
               else (r, calls))
        in case close_raises env of
             Some e \<Rightarrow> (Some e, calls2 @ [Close], w1)
           | None \<Rightarrow> (r2, calls2 @ [Close], w1)))"

text \<open>A process that has touched nothing yet, next to a configuration file with the given text.\<close>

definition fresh_world :: "string \<Rightarrow> world" where
  "fresh_world data =
    \<lparr>config_file = Some data, credentials_file = None, sqlite_file = False,
     engine_string = None, config_reads = 0, config_writes = 0, credentials_accesses = 0\<rparr>"


section \<open>Digits and decimals\<close>
























section \<open>Searching and replacing in the configuration text\<close>

lemma match_param_Some_iff:
  "match_param p s = Some v \<longleftrightarrow> (\<exists>rest. s = p @ '' = '' @ v @ NL # rest \<and> v \<noteq> [] \<and> NL \<notin> set v)"
proof
  assume a: "match_param p s = Some v"
  let ?k = "length p + 3"
  from a have tk: "take ?k s = p @ '' = ''"
    by (auto simp: match_param_def Let_def split: if_splits)
  from a have v: "v = takeWhile (\<lambda>c. c \<noteq> NL) (drop ?k s)" "v \<noteq> []"
      and r: "dropWhile (\<lambda>c. c \<noteq> NL) (drop ?k s) \<noteq> []"
    by (auto simp: match_param_def Let_def split: if_splits)
  from r have "hd (dropWhile (\<lambda>c. c \<noteq> NL) (drop ?k s)) = NL"
    using hd_dropWhile[of "\<lambda>c. c \<noteq> NL" "drop ?k s"] by auto
  with r obtain rest where rr: "dropWhile (\<lambda>c. c \<noteq> NL) (drop ?k s) = NL # rest"
    by (cases "dropWhile (\<lambda>c. c \<noteq> NL) (drop ?k s)") auto
  have "s = take ?k s @ drop ?k s" by simp
  also have "drop ?k s = v @ NL # rest"
    using takeWhile_dropWhile_id[of "\<lambda>c. c \<noteq> NL" "drop ?k s"] v rr by simp
  finally have "s = p @ '' = '' @ v @ NL # rest" using tk by simp
  moreover have "NL \<notin> set v" using v(1) by (auto dest: set_takeWhileD)
  ultimately show "\<exists>rest. s = p @ '' = '' @ v @ NL # rest \<and> v \<noteq> [] \<and> NL \<notin> set v"
    using v(2) by blast
next
  assume "\<exists>rest. s = p @ '' = '' @ v @ NL # rest \<and> v \<noteq> [] \<and> NL \<notin> set v"
  then obtain rest where s: "s = p @ '' = '' @ v @ NL # rest" and v: "v \<noteq> []" "NL \<notin> set v"
    by blast
  have tw: "takeWhile (\<lambda>c. c \<noteq> NL) (v @ NL # rest) = v"
    using v(2) by (subst takeWhile_append2) auto
  have dw: "dropWhile (\<lambda>c. c \<noteq> NL) (v @ NL # rest) = NL # rest"
    using v(2) by (subst dropWhile_append2) auto
  show "match_param p s = Some v"
    using tw dw v(1) by (simp add: match_param_def s Let_def)
qed

lemma re_search_SomeD:
  "re_search m s = Some r \<Longrightarrow>
     \<exists>i\<le>length s. m (drop i s) = Some r \<and> (\<forall>j<i. m (drop j s) = None)"
proof (induction s)
  case Nil
  then show ?case by simp
next
  case (Cons c cs)
  show ?case
  proof (cases "m (c # cs)")
    case (Some r')
    with Cons.prems have "m (drop 0 (c # cs)) = Some r" by simp
    then show ?thesis by blast
  next
    case None
    with Cons.prems have "re_search m cs = Some r" by simp
    from Cons.IH[OF this] obtain i where i: "i \<le> length cs" "m (drop i cs) = Some r"
      "\<forall>j<i. m (drop j cs) = None" by blast
    have "\<forall>j<Suc i. m (drop j (c # cs)) = None"
    proof (intro allI impI)
      fix j assume "j < Suc i"
      then show "m (drop j (c # cs)) = None"
        using None i(3) by (cases j) auto
    qed
    with i(1,2) show ?thesis
      by (intro exI[of _ "Suc i"]) simp
  qed
qed

lemma re_search_SomeI:
  "i \<le> length s \<Longrightarrow> m (drop i s) = Some r \<Longrightarrow> (\<forall>j<i. m (drop j s) = None) \<Longrightarrow>
     re_search m s = Some r"
proof (induction s arbitrary: i)
  case Nil
  then show ?case by simp
next
  case (Cons c cs)
  show ?case
  proof (cases i)
    case 0
    with Cons.prems show ?thesis by simp
  next
    case (Suc i')
    with Cons.prems have none: "m (c # cs) = None" by force
    have "re_search m cs = Some r"
    proof (rule Cons.IH[of i'])
      show "i' \<le> length cs" using Cons.prems Suc by simp
      show "m (drop i' cs) = Some r" using Cons.prems Suc by simp
      show "\<forall>j<i'. m (drop j cs) = None"
      proof (intro allI impI)
        fix j assume "j < i'"
        then have "Suc j < i" using Suc by simp
        with Cons.prems(3) have "m (drop (Suc j) (c # cs)) = None" by blast
        then show "m (drop j cs) = None" by simp
      qed
    qed
    with none show ?thesis by simp
  qed
qed

lemma replace_first_at:
  "old \<noteq> [] \<Longrightarrow> (\<forall>i<length pre. take (length old) (drop i (pre @ old @ suf)) \<noteq> old) \<Longrightarrow>
     replace_first old new (pre @ old @ suf) = pre @ new @ suf"
proof (induction pre)
  case Nil
  then show ?case by (cases old) simp_all
next
  case (Cons c pre)
  from Cons.prems(2) have h0: "take (length old) (c # pre @ old @ suf) \<noteq> old"
    by force
  have "\<forall>i<length pre. take (length old) (drop i (pre @ old @ suf)) \<noteq> old"
  proof (intro allI impI)
    fix i assume "i < length pre"
    then have "Suc i < length (c # pre)" by simp
    with Cons.prems(2) have "take (length old) (drop (Suc i) ((c # pre) @ old @ suf)) \<noteq> old"
      by blast
    then show "take (length old) (drop i (pre @ old @ suf)) \<noteq> old" by simp
  qed
  with Cons.IH Cons.prems(1) have "replace_first old new (pre @ old @ suf) = pre @ new @ suf"
    by blast
  with h0 show ?case by simp
qed


lemma match_param_NoneD:
  assumes "match_param p s = None" "take (length p + 3) s = p @ '' = ''"
      and "NL \<in> set (drop (length p + 3) s)"
  shows "hd (drop (length p + 3) s) = NL"
proof -
  let ?x = "drop (length p + 3) s"
  have "dropWhile (\<lambda>c. c \<noteq> NL) ?x \<noteq> []"
    using assms(3) by (auto simp: dropWhile_eq_Nil_conv)
  with assms(1,2) have "takeWhile (\<lambda>c. c \<noteq> NL) ?x = []"
    by (auto simp: match_param_def Let_def split: if_splits)
  moreover have "?x \<noteq> []" using assms(3) by auto
  ultimately show ?thesis
    by (cases ?x) (auto split: if_splits)
qed

lemma take_drop_shared_prefix:
  assumes "k \<le> length q + length P"
  shows "take k (q @ P @ X) = take k (q @ P)" "drop k (q @ P @ X) = drop k (q @ P) @ X"
  using assms by (simp_all add: take_append drop_append flip: append_assoc)

lemma take_eq_appendD:
  assumes "take n xs = P @ v"
  shows "take (length P) xs = P" "take (length v) (drop (length P) xs) = v"
proof -
  have "xs = (P @ v) @ drop n xs"
    using append_take_drop_id[of n xs] assms by simp
  then obtain r where xs: "xs = P @ v @ r" by simp
  show "take (length P) xs = P" "take (length v) (drop (length P) xs) = v"
    by (simp_all add: xs)
qed

lemma hd_of_common_front:
  assumes "A \<noteq> []" "u \<noteq> []" "take (length u) (A @ B) = u"
  shows "hd A = hd u"
  using assms by (cases A; cases u) auto

lemma match_param_prefixed:
  assumes P: "P = p @ '' = ''"
  shows "match_param p s = Some u \<longleftrightarrow> (\<exists>r. s = P @ u @ NL # r \<and> u \<noteq> [] \<and> NL \<notin> set u)"
  using match_param_Some_iff[of p s u] unfolding P by simp

lemma match_param_prefixed_None:
  assumes P: "P = p @ '' = ''"
      and "match_param p s = None" "take (length P) s = P" "NL \<in> set (drop (length P) s)"
  shows "hd (drop (length P) s) = NL"
proof -
  have len: "length P = length p + 3" using P by simp
  have a: "take (length p + 3) s = p @ '' = ''" using assms(3) unfolding len unfolding P .
  have b: "NL \<in> set (drop (length p + 3) s)" using assms(4) unfolding len .
  have "hd (drop (length p + 3) s) = NL" by (rule match_param_NoneD[OF assms(2) a b])
  then show ?thesis unfolding len .
qed

lemma drop_in_front:
  "j < length pre \<Longrightarrow> drop j (pre @ P @ X) = drop j pre @ P @ X"
  by simp

lemma drop_past_prefix_nonempty:
  assumes "j < length pre"
  shows "drop (length P) (drop j pre @ P) \<noteq> []"
proof -
  have "length (drop j pre @ P) = (length pre - j) + length P" by simp
  then have "length P < length (drop j pre @ P)" using assms by arith
  then show ?thesis by (simp only: drop_eq_Nil not_le)
qed

text \<open>a position before the first match, at which the name and \<open> = \<close> stand, is followed by a newline\<close>

lemma no_match_shape:
  assumes P: "P = p @ '' = ''"
      and none: "match_param p (drop j (pre @ P @ v @ NL # rest)) = None"
      and j: "j < length pre"
      and tk: "take (length P) (drop j pre @ P) = P"
  shows "hd (drop (length P) (drop j pre @ P)) = NL"
proof -
  have le: "length P \<le> length (drop j pre) + length P" by simp
  have dj: "drop j (pre @ P @ v @ NL # rest) = drop j pre @ P @ (v @ NL # rest)"
    by (rule drop_in_front[OF j])
  have tk': "take (length P) (drop j pre @ P @ (v @ NL # rest)) = P"
    using take_drop_shared_prefix(1)[OF le] tk by simp
  have dk: "drop (length P) (drop j pre @ P @ (v @ NL # rest))
      = drop (length P) (drop j pre @ P) @ (v @ NL # rest)"
    by (rule take_drop_shared_prefix(2)[OF le])
  have "NL \<in> set (v @ NL # rest)" by simp
  then have "NL \<in> set (drop (length P) (drop j pre @ P @ (v @ NL # rest)))"
    unfolding dk by (simp only: set_append Un_iff simp_thms)
  from match_param_prefixed_None[OF P none[unfolded dj] tk' this]
  have "hd (drop (length P) (drop j pre @ P) @ (v @ NL # rest)) = NL" unfolding dk .
  with drop_past_prefix_nonempty[OF j, of P] show ?thesis by (metis hd_append2)
qed

text \<open>if the name, \<open> = \<close> and a text \<open>u\<close> without a leading newline stand at such a position, there is a match\<close>

lemma no_match_contra:
  assumes P: "P = p @ '' = ''"
      and none: "match_param p (drop j (pre @ P @ v @ NL # rest)) = None"
      and j: "j < length pre"
      and eq: "take (length (P @ u)) (drop j pre @ P @ X) = P @ u"
      and u: "u \<noteq> []" "hd u \<noteq> NL"
  shows False
proof -
  have le: "length P \<le> length (drop j pre) + length P" by simp
  have tk: "take (length P) (drop j pre @ P) = P"
    using take_eq_appendD(1)[OF eq] take_drop_shared_prefix(1)[OF le] by simp
  have "take (length u) (drop (length P) (drop j pre @ P) @ X) = u"
    using take_eq_appendD(2)[OF eq] take_drop_shared_prefix(2)[OF le] by simp
  from hd_of_common_front[OF drop_past_prefix_nonempty[OF j] u(1) this]
  have "hd (drop (length P) (drop j pre @ P)) = hd u" .
  with no_match_shape[OF P none j tk] u(2) show False by simp
qed

lemma first_match_split:
  assumes found: "re_search (match_param p) data = Some v"
  obtains pre rest where
    "data = pre @ p @ '' = '' @ v @ NL # rest" "v \<noteq> []" "NL \<notin> set v"
    "\<forall>j<length pre. match_param p (drop j data) = None"
    "\<And>t. replace_first (p @ '' = '' @ v) (p @ '' = '' @ t) data = pre @ p @ '' = '' @ t @ NL # rest"
proof -
  define P where "P = p @ '' = ''"
  from re_search_SomeD[OF found] obtain i where i: "i \<le> length data"
      "match_param p (drop i data) = Some v" "\<forall>j<i. match_param p (drop j data) = None"
    by blast
  from i(2) obtain rest where rest: "drop i data = P @ v @ NL # rest" and v: "v \<noteq> []" "NL \<notin> set v"
    unfolding match_param_prefixed[OF P_def] by auto
  define pre where "pre = take i data"
  have lpre: "length pre = i" using i(1) by (simp add: pre_def)
  have data: "data = pre @ P @ v @ NL # rest"
    using rest append_take_drop_id[of i data] by (simp add: pre_def)
  have none: "\<forall>j<length pre. match_param p (drop j (pre @ P @ v @ NL # rest)) = None"
    using i(3) lpre data by simp
  have hdv: "hd v \<noteq> NL" using v by (cases v) auto
  have first: "\<forall>j<length pre. take (length (P @ v)) (drop j (pre @ (P @ v) @ NL # rest)) \<noteq> P @ v"
  proof (intro allI impI notI)
    fix j assume j: "j < length pre"
      and eq: "take (length (P @ v)) (drop j (pre @ (P @ v) @ NL # rest)) = P @ v"
    have dj: "drop j (pre @ (P @ v) @ NL # rest) = drop j pre @ P @ (v @ NL # rest)"
      using drop_in_front[OF j, of P "v @ NL # rest"] by (simp only: append_assoc)
    from none j have "match_param p (drop j (pre @ P @ v @ NL # rest)) = None" by blast
    from no_match_contra[OF P_def this j eq[unfolded dj] v(1) hdv] show False .
  qed
  have "P @ v \<noteq> []" using v by simp
  from replace_first_at[OF this first]
  have repl: "replace_first (P @ v) (P @ t) data = pre @ P @ t @ NL # rest" for t
    using data by simp
  show thesis
  proof (rule that[of pre rest])
    show "data = pre @ p @ '' = '' @ v @ NL # rest" using data by (simp add: P_def)
    show "v \<noteq> []" "NL \<notin> set v" by fact+
    show "\<forall>j<length pre. match_param p (drop j data) = None" using none data by simp
    show "replace_first (p @ '' = '' @ v) (p @ '' = '' @ t) data = pre @ p @ '' = '' @ t @ NL # rest" for t
      using repl[of t] by (simp add: P_def)
  qed
qed

lemma search_after_replace:
  assumes found: "re_search (match_param p) data = Some v"
      and t: "t \<noteq> []" "NL \<notin> set t"
  shows "re_search (match_param p) (replace_first (p @ '' = '' @ v) (p @ '' = '' @ t) data) = Some t"
proof -
  define P where "P = p @ '' = ''"
  from first_match_split[OF found] obtain pre rest where
    data: "data = pre @ p @ '' = '' @ v @ NL # rest"
    and none: "\<forall>j<length pre. match_param p (drop j data) = None"
    and repl: "replace_first (p @ '' = '' @ v) (p @ '' = '' @ t) data = pre @ p @ '' = '' @ t @ NL # rest"
    by metis
  have data': "data = pre @ P @ v @ NL # rest" using data by (simp add: P_def)
  have "re_search (match_param p) (pre @ P @ t @ NL # rest) = Some t"
  proof (rule re_search_SomeI[of "length pre"])
    show "length pre \<le> length (pre @ P @ t @ NL # rest)" by simp
    show "match_param p (drop (length pre) (pre @ P @ t @ NL # rest)) = Some t"
      using t by (simp add: match_param_prefixed[OF P_def])
    show "\<forall>j<length pre. match_param p (drop j (pre @ P @ t @ NL # rest)) = None"
    proof (intro allI impI)
      fix j assume j: "j < length pre"
      have dj: "drop j (pre @ P @ t @ NL # rest) = drop j pre @ P @ (t @ NL # rest)"
        by (rule drop_in_front[OF j])
      from none j data' have old: "match_param p (drop j (pre @ P @ v @ NL # rest)) = None" by blast
      show "match_param p (drop j (pre @ P @ t @ NL # rest)) = None"
      proof (rule ccontr)
        assume "match_param p (drop j (pre @ P @ t @ NL # rest)) \<noteq> None"
        then obtain u where "match_param p (drop j pre @ P @ (t @ NL # rest)) = Some u"
          unfolding dj by auto
        then obtain rest' where u: "drop j pre @ P @ (t @ NL # rest) = P @ u @ NL # rest'"
            "u \<noteq> []" "NL \<notin> set u"
          unfolding match_param_prefixed[OF P_def] by auto
        have eq: "take (length (P @ u)) (drop j pre @ P @ (t @ NL # rest)) = P @ u"
          unfolding u(1) by simp
        have "hd u \<noteq> NL" using u(2,3) by (cases u) auto
        from no_match_contra[OF P_def old j eq u(2) this] show False .
      qed
    qed
  qed
  then show ?thesis unfolding repl by (simp add: P_def)
qed

section \<open>Reading and writing the stored connection\<close>

lemma DBEC_literal: "is_literal_pattern DB_EXISTING_CONNECTION"
  by code_simp

lemma quote_SQLite:
  "TypesManager (VStr ''SQLite'') False False True = Inr (VStr ([SQ] @ ''SQLite'' @ [SQ]))"
  by code_simp

lemma decode_quoted_SQLite:
  "TypesManager (VStr ([SQ] @ ''SQLite'' @ [SQ])) False False False = Inr (VStr ''SQLite'')"
  by code_simp

lemma config_manager_SCC_get:
  "config_file w = Some data \<Longrightarrow>
   config_manager_SCC DB_EXISTING_CONNECTION VNone w =
     ((case re_search (match_param DB_EXISTING_CONNECTION) data of
         None \<Rightarrow> Inr VNone | Some v \<Rightarrow> TypesManager (VStr v) False False False),
      w\<lparr>config_reads := config_reads w + 1\<rparr>)"
  by (simp add: config_manager_SCC_def DBEC_literal Let_def split: option.splits)

lemma config_manager_SCC_set_SQLite:
  "config_file w = Some data \<Longrightarrow> re_search (match_param DB_EXISTING_CONNECTION) data = Some v \<Longrightarrow>
   config_manager_SCC DB_EXISTING_CONNECTION (VStr ''SQLite'') w =
     (Inr VNone,
      w\<lparr>config_reads := config_reads w + 1,
        config_file := Some (replace_first (DB_EXISTING_CONNECTION @ '' = '' @ v)
           (DB_EXISTING_CONNECTION @ '' = '' @ [SQ] @ ''SQLite'' @ [SQ]) data),
        config_writes := config_writes w + 1\<rparr>)"
  by (simp add: config_manager_SCC_def DBEC_literal Let_def quote_SQLite write_param_def str_of_def)

lemma stored_FalseD:
  assumes "fst (config_manager_SCC DB_EXISTING_CONNECTION VNone w) = Inr (VBool False)"
  obtains data v where "config_file w = Some data"
    "re_search (match_param DB_EXISTING_CONNECTION) data = Some v"
    "TypesManager (VStr v) False False False = Inr (VBool False)"
  using assms
  by (auto simp: config_manager_SCC_def DBEC_literal Let_def split: option.splits)

section \<open>The codec\<close>

text \<open>
  C4, as stated: encoding with all three flags false returns every value unchanged. It
  fails on a text: the text \<open>1\<close> comes back as the integer 1, because a text is parsed
  before the table of conversions is consulted.
\<close>

theorem encode_identity_counterexample:
  "encode (VStr ''1'') False False False = Inr (VInt 1) \<and> VInt 1 \<noteq> VStr ''1''"
  by code_simp

text \<open>
  C4, amended: encoding with all three flags false returns every value that is not a text
  (None, boolean, integer, float, decimal) unchanged.
\<close>

theorem encode_identity_non_text:
  "\<not> is_text v \<Longrightarrow> encode v False False False = Inr v"
  by (cases v)
     (simp_all add: encode_def TypesManager_def types_converting_def bind_r_def
        reconstruct_def is_text_def)

theorem encode_identity_non_text_witness:
  "\<not> is_text (VBool True) \<and> encode (VBool True) False False False = Inr (VBool True)"
  using encode_identity_non_text [of "VBool True"] by (simp add: is_text_def)




text \<open>
  C5: a text without a Decimal literal on which the literal parse fails is returned as it
  is. Here the code is evaluated on \<open>hello world\<close>: no Decimal literal is found, the literal
  parse fails with \<open>SyntaxError\<close>, which the handler for \<open>ValueError\<close> does not catch, and
  decoding raises.
\<close>

theorem decode_raises_SyntaxError:
  "re_search match_decimal ''hello world'' = None
   \<and> literal_eval ''hello world'' = Inl SyntaxError
   \<and> decode ''hello world'' = Inl SyntaxError"
  by code_simp

text \<open>
  C8: quoting through \<open>TypesManager\<close> yields \<open>'plain'\<close> for \<open>plain\<close> and should yield the
  double-quoted text for \<open>It's\<close>. Here the code is evaluated on both: \<open>plain\<close> is wrapped in
  single quotes, and \<open>It's\<close> raises \<open>SyntaxError\<close> in the parse that precedes the quoting.
\<close>

theorem quote_apostrophe_raises:
  "TypesManager (VStr (''It'' @ [SQ] @ ''s'')) False False True = Inl SyntaxError
   \<and> TypesManager (VStr ''plain'') False False True = Inr (VStr ([SQ] @ ''plain'' @ [SQ]))"
  by code_simp

text \<open>The method \<open>__quote\<close> itself, applied to the text \<open>It's\<close>, does wrap it in double quotes.\<close>

lemma quote_method_double_quotes:
  "quote \<lparr>value' = VStr (''It'' @ [SQ] @ ''s''), as_decimal = False, as_string = False,
      quoting = True\<rparr>
   = Inr \<lparr>value' = VStr ([DQ] @ ''It'' @ [SQ] @ ''s'' @ [DQ]), as_decimal = False,
      as_string = False, quoting = True\<rparr>"
  by (simp add: quote_def SQ_def DQ_def)

section \<open>The configuration store\<close>

text \<open>
  C6: a lookup returns the value of the line whose name is exactly the one asked for, and
  None otherwise. Here the code is evaluated on a file whose only line is named
  \<open>SQLITE_DB_NAME\<close>: the lookup of \<open>DB_NAME\<close> returns that line's value, since the pattern is
  searched for anywhere in the text.
\<close>

theorem config_get_suffix_match:
  "fst (config_manager ''DB_NAME'' VNone (fresh_world (''SQLITE_DB_NAME = 5'' @ [NL])))
     = Inr (VInt 5)"
  by code_simp

text \<open>
  C7: a write changes only the value of the first line named as asked, and nothing when
  there is no such line. Here the code is evaluated on the same file: writing 7 to
  \<open>DB_NAME\<close>, which has no line, rewrites the value of the line \<open>SQLITE_DB_NAME\<close>.
\<close>

theorem config_set_suffix_match:
  "config_file (snd (config_manager ''DB_NAME'' (VInt 7)
       (fresh_world (''SQLITE_DB_NAME = 5'' @ [NL]))))
     = Some (''SQLITE_DB_NAME = 7'' @ [NL])"
  by code_simp

text \<open>
  What a call with a new value does to the file in general: without a match it changes
  nothing and returns None; when it raises, the file is as before; otherwise the text
  before the first match, the name, the \<open> = \<close> and everything from the newline on stay, and
  only the value in between is replaced.
\<close>

lemma config_manager_frame:
  assumes lit: "is_literal_pattern param" and cfile: "config_file w = Some data"
  shows "re_search (match_param param) data = None \<Longrightarrow>
           config_manager param new_val w = (Inr VNone, w\<lparr>config_reads := config_reads w + 1\<rparr>)"
    and "config_manager param new_val w = (Inl e, w') \<Longrightarrow> config_file w' = Some data"
    and "re_search (match_param param) data = Some v \<Longrightarrow> new_val \<noteq> VNone \<Longrightarrow>
           config_manager param new_val w = (Inr r, w') \<Longrightarrow>
           \<exists>pre rest t. data = pre @ param @ '' = '' @ v @ NL # rest
              \<and> config_file w' = Some (pre @ param @ '' = '' @ t @ NL # rest)
              \<and> (\<forall>j<length pre. match_param param (drop j data) = None)"
proof -
  show "re_search (match_param param) data = None \<Longrightarrow>
           config_manager param new_val w = (Inr VNone, w\<lparr>config_reads := config_reads w + 1\<rparr>)"
    using lit cfile by (simp add: config_manager_def Let_def)
  show "config_manager param new_val w = (Inl e, w') \<Longrightarrow> config_file w' = Some data"
    using lit cfile
    by (auto simp: config_manager_def write_param_def Let_def
        split: option.splits if_splits sum.splits)
  assume found: "re_search (match_param param) data = Some v" and nv: "new_val \<noteq> VNone"
    and run: "config_manager param new_val w = (Inr r, w')"
  from run lit cfile found nv obtain t where
    w': "config_file w' = Some (replace_first (param @ '' = '' @ v) (param @ '' = '' @ t) data)"
    by (auto simp: config_manager_def write_param_def Let_def
        split: option.splits if_splits sum.splits)
  from first_match_split[OF found] obtain pre rest where
    "data = pre @ param @ '' = '' @ v @ NL # rest"
    "\<forall>j<length pre. match_param param (drop j data) = None"
    "replace_first (param @ '' = '' @ v) (param @ '' = '' @ t) data = pre @ param @ '' = '' @ t @ NL # rest"
    by metis
  with w' show "\<exists>pre rest t. data = pre @ param @ '' = '' @ v @ NL # rest
              \<and> config_file w' = Some (pre @ param @ '' = '' @ t @ NL # rest)
              \<and> (\<forall>j<length pre. match_param param (drop j data) = None)"
    by metis
qed




section \<open>The connection resolver\<close>

text \<open>
  C2: with no credentials file, no cached engine string and the stored connection \<open>False\<close>,
  a call of \<open>db_access\<close> returns the SQLite engine string, caches it, writes the file once
  and leaves \<open>'SQLite'\<close> as the stored connection; every later call returns the same string
  and leaves the whole state, counters of file accesses included, as it is.
\<close>

theorem db_access_fallback_memoized:
  assumes nocred: "credentials_file w = None"
      and fresh: "engine_string w = None"
      and unset: "fst (config_manager_SCC DB_EXISTING_CONNECTION VNone w) = Inr (VBool False)"
  shows "\<exists>w'. db_access (Suc n) K w
                = Some (Inr (''sqlite:///'' @ ROOT_DIR K @ ''/'' @ SQLITE_DB_NAME K), w')
            \<and> engine_string w' = Some (''sqlite:///'' @ ROOT_DIR K @ ''/'' @ SQLITE_DB_NAME K)
            \<and> fst (config_manager_SCC DB_EXISTING_CONNECTION VNone w') = Inr (VStr ''SQLite'')
            \<and> config_writes w' = config_writes w + 1
            \<and> (\<forall>m. db_access (Suc m) K w'
                     = Some (Inr (''sqlite:///'' @ ROOT_DIR K @ ''/'' @ SQLITE_DB_NAME K), w'))"
proof -
  let ?url = "''sqlite:///'' @ ROOT_DIR K @ ''/'' @ SQLITE_DB_NAME K"
  from unset obtain data v where data: "config_file w = Some data"
    and v: "re_search (match_param DB_EXISTING_CONNECTION) data = Some v"
    and dv: "TypesManager (VStr v) False False False = Inr (VBool False)"
    by (rule stored_FalseD)
  define data' where "data' = replace_first (DB_EXISTING_CONNECTION @ '' = '' @ v)
           (DB_EXISTING_CONNECTION @ '' = '' @ [SQ] @ ''SQLite'' @ [SQ]) data"
  have v': "re_search (match_param DB_EXISTING_CONNECTION) data' = Some ([SQ] @ ''SQLite'' @ [SQ])"
    unfolding data'_def by (rule search_after_replace[OF v]) (simp_all add: SQ_def NL_def)
  define w1 where "w1 = w\<lparr>credentials_accesses := credentials_accesses w + 1\<rparr>"
  define w2 where "w2 = w1\<lparr>config_reads := config_reads w1 + 1\<rparr>"
  define w3 where "w3 = w2\<lparr>credentials_accesses := credentials_accesses w2 + 1\<rparr>"
  define w4 where "w4 = w3\<lparr>config_reads := config_reads w3 + 1\<rparr>"
  define w5 where "w5 = w4\<lparr>config_reads := config_reads w4 + 1, config_file := Some data',
        config_writes := config_writes w4 + 1\<rparr>"
  have get1: "config_manager_SCC DB_EXISTING_CONNECTION VNone w1 = (Inr (VBool False), w2)"
    using config_manager_SCC_get[of w1 data] data v dv by (simp add: w1_def w2_def)
  have my: "mysql_access K w2 = (Inl FileNotFoundError, w3)"
    using nocred by (simp add: mysql_access_def w1_def w2_def w3_def)
  have get2: "config_manager_SCC DB_EXISTING_CONNECTION VNone w3 = (Inr (VBool False), w4)"
    using config_manager_SCC_get[of w3 data] data v dv by (simp add: w1_def w2_def w3_def w4_def)
  have set: "config_manager_SCC DB_EXISTING_CONNECTION (VStr ''SQLite'') w4 = (Inr VNone, w5)"
    using config_manager_SCC_set_SQLite[of w4 data v] data v
    by (simp add: w1_def w2_def w3_def w4_def w5_def data'_def)
  have sq: "sqlite_access K w3 = (Inr ?url, w5)"
    by (simp add: sqlite_access_def get2 set)
  have nodb: "no_db_access K w2 = (Inr ?url, w5)"
    by (simp add: no_db_access_def my sq)
  have res: "resolve K w = (Inr ?url, w5)"
    using nocred get1[unfolded w1_def] nodb
    by (simp add: resolve_def Let_def connection_types_def equals_False_def)
  define w' where "w' = w5\<lparr>engine_string := Some ?url\<rparr>"
  have run: "db_access (Suc n) K w = Some (Inr ?url, w')"
    using fresh res by (simp add: w'_def)
  have es: "engine_string w' = Some ?url" by (simp add: w'_def)
  have cf: "config_file w' = Some data'" by (simp add: w'_def w5_def)
  have stored: "fst (config_manager_SCC DB_EXISTING_CONNECTION VNone w') = Inr (VStr ''SQLite'')"
    using config_manager_SCC_get[OF cf] v' decode_quoted_SQLite by simp
  have writes: "config_writes w' = config_writes w + 1"
    by (simp add: w'_def w5_def w4_def w3_def w2_def w1_def)
  have memo: "\<forall>m. db_access (Suc m) K w' = Some (Inr ?url, w')"
    using es by simp
  from run es stored writes memo show ?thesis by blast
qed

theorem db_access_fallback_memoized_witness:
  "credentials_file (fresh_world (''DB_EXISTING_CONNECTION = False'' @ [NL])) = None
   \<and> engine_string (fresh_world (''DB_EXISTING_CONNECTION = False'' @ [NL])) = None
   \<and> fst (config_manager_SCC DB_EXISTING_CONNECTION VNone
          (fresh_world (''DB_EXISTING_CONNECTION = False'' @ [NL]))) = Inr (VBool False)
   \<and> (\<exists>w'. db_access (Suc 0) \<lparr>ROOT_DIR = ''/app'', SQLITE_DB_NAME = ''catalog.db''\<rparr>
              (fresh_world (''DB_EXISTING_CONNECTION = False'' @ [NL]))
            = Some (Inr ''sqlite:////app/catalog.db'', w')
          \<and> engine_string w' = Some ''sqlite:////app/catalog.db''
          \<and> fst (config_manager_SCC DB_EXISTING_CONNECTION VNone w') = Inr (VStr ''SQLite'')
          \<and> db_access (Suc 0) \<lparr>ROOT_DIR = ''/app'', SQLITE_DB_NAME = ''catalog.db''\<rparr> w'
            = Some (Inr ''sqlite:////app/catalog.db'', w'))"
proof -
  let ?w = "fresh_world (''DB_EXISTING_CONNECTION = False'' @ [NL])"
  let ?K = "\<lparr>ROOT_DIR = ''/app'', SQLITE_DB_NAME = ''catalog.db''\<rparr>"
  have h1: "credentials_file ?w = None" and h2: "engine_string ?w = None"
    by (simp_all add: fresh_world_def)
  have h3: "fst (config_manager_SCC DB_EXISTING_CONNECTION VNone ?w) = Inr (VBool False)"
    by code_simp
  from db_access_fallback_memoized [OF h1 h2 h3, of 0 ?K]
  obtain w' where "db_access (Suc 0) ?K ?w = Some (Inr ''sqlite:////app/catalog.db'', w')"
      "engine_string w' = Some ''sqlite:////app/catalog.db''"
      "fst (config_manager_SCC DB_EXISTING_CONNECTION VNone w') = Inr (VStr ''SQLite'')"
      "\<forall>m. db_access (Suc m) ?K w' = Some (Inr ''sqlite:////app/catalog.db'', w')"
    by auto
  with h1 h2 h3 show ?thesis by blast
qed

text \<open>
  C3: a stored connection that is none of \<open>False\<close>, \<open>'MySQL'\<close>, \<open>'SQLite'\<close> is reset and
  resolution is tried once more. Here the code is evaluated with the stored connection
  \<open>'Postgres'\<close> and no credentials file: the lookup in \<open>connection_types\<close> raises \<open>KeyError\<close>,
  which the handler for \<open>FileNotFoundError\<close> does not catch; the call raises after one read
  of the file, with nothing written and nothing retried, whatever the bound on retries.
\<close>

theorem db_access_invalid_state_KeyError:
  "db_access (Suc n) K
     (fresh_world (''DB_EXISTING_CONNECTION = '' @ [SQ] @ ''Postgres'' @ [SQ, NL]))
   = Some (Inl KeyError,
       (fresh_world (''DB_EXISTING_CONNECTION = '' @ [SQ] @ ''Postgres'' @ [SQ, NL]))
         \<lparr>config_reads := 1, credentials_accesses := 1\<rparr>)"
proof -
  let ?pg = "''DB_EXISTING_CONNECTION = '' @ [SQ] @ ''Postgres'' @ [SQ, NL]"
  have found: "re_search (match_param DB_EXISTING_CONNECTION) ?pg = Some ([SQ] @ ''Postgres'' @ [SQ])"
    by code_simp
  have dec: "TypesManager (VStr ([SQ] @ ''Postgres'' @ [SQ])) False False False
      = Inr (VStr ''Postgres'')"
    by code_simp
  have none: "connection_types K (VStr ''Postgres'') = None"
    by (simp add: connection_types_def equals_False_def)
  have "config_manager_SCC DB_EXISTING_CONNECTION VNone
          ((fresh_world ?pg)\<lparr>credentials_accesses := 1\<rparr>)
        = (Inr (VStr ''Postgres''),
           (fresh_world ?pg)\<lparr>credentials_accesses := 1, config_reads := 1\<rparr>)"
    using config_manager_SCC_get[of "(fresh_world ?pg)\<lparr>credentials_accesses := 1\<rparr>" ?pg]
      found dec
    by (simp add: fresh_world_def)
  then show ?thesis
    using none by (simp add: fresh_world_def resolve_def Let_def)
qed

text \<open>
  The retry that the handler does perform: with the stored connection \<open>'MySQL'\<close> and no
  credentials file, \<open>__mysql_access\<close> raises \<open>FileNotFoundError\<close>, the stored connection is
  reset to \<open>False\<close>, and the second call falls back to SQLite. One level of the call inside
  the handler is needed and is enough.
\<close>

lemma db_access_reset_and_retry:
  "db_access 1 \<lparr>ROOT_DIR = ''/app'', SQLITE_DB_NAME = ''catalog.db''\<rparr>
     (fresh_world (''DB_EXISTING_CONNECTION = '' @ [SQ] @ ''MySQL'' @ [SQ, NL])) = None"
  "map_option (\<lambda>(r, w). (r, config_file w, config_writes w))
     (db_access 2 \<lparr>ROOT_DIR = ''/app'', SQLITE_DB_NAME = ''catalog.db''\<rparr>
       (fresh_world (''DB_EXISTING_CONNECTION = '' @ [SQ] @ ''MySQL'' @ [SQ, NL])))
   = Some (Inr ''sqlite:////app/catalog.db'',
       Some (''DB_EXISTING_CONNECTION = '' @ [SQ] @ ''SQLite'' @ [SQ, NL]), 2)"
  by code_simp+

section \<open>The transaction scope\<close>

text \<open>
  C9: whatever happens, \<open>close\<close> is the last call on the session and is made once. When the
  unit of work is reached and raises \<open>OperationalError\<close>, \<open>rollback\<close> is called, \<open>commit\<close> is
  not, and that exception leaves the scope (unless \<open>rollback\<close> or \<open>close\<close> raise themselves).
  When it raises any other exception, neither \<open>rollback\<close> nor \<open>commit\<close> is called and the
  exception leaves the scope. When nothing is raised, \<open>commit\<close> was called.
\<close>

theorem session_scope_paths:
  assumes "session_scope env w = (raised, calls, w')"
  shows "(calls \<noteq> [] \<and> last calls = Close \<and> Close \<notin> set (butlast calls))
    \<and> (fst (config_manager DB_EXISTING_CONNECTION VNone w) = Inr k
         \<and> (k = VStr ''SQLite'' \<longrightarrow> execute_raises env = None)
         \<and> work_raises env = Some OperationalError
        \<longrightarrow> Rollback \<in> set calls \<and> Commit \<notin> set calls
             \<and> (rollback_raises env = None \<and> close_raises env = None
                  \<longrightarrow> raised = Some OperationalError))
    \<and> (fst (config_manager DB_EXISTING_CONNECTION VNone w) = Inr k
         \<and> (k = VStr ''SQLite'' \<longrightarrow> execute_raises env = None)
         \<and> work_raises env = Some e \<and> e \<noteq> OperationalError
        \<longrightarrow> Rollback \<notin> set calls \<and> Commit \<notin> set calls
             \<and> (close_raises env = None \<longrightarrow> raised = Some e))
    \<and> (raised = None \<longrightarrow> calls = [Commit, Close]
          \<or> calls = [Execute ''PRAGMA foreign_keys = ON;'', Commit, Close])"
proof -
  obtain r w1 where cm: "config_manager DB_EXISTING_CONNECTION VNone w = (r, w1)"
    by (cases "config_manager DB_EXISTING_CONNECTION VNone w") simp
  obtain ex wk co rb cl where env: "env = \<lparr>execute_raises = ex, work_raises = wk,
      commit_raises = co, rollback_raises = rb, close_raises = cl\<rparr>"
    by (cases env) simp
  show ?thesis
    using assms unfolding env session_scope_def session_try_def cm
    by (cases r; cases ex; cases wk; cases co; cases rb; cases cl)
       (auto simp: Let_def split: if_splits)
qed

theorem session_scope_paths_witness:
  "session_scope \<lparr>execute_raises = None, work_raises = Some OperationalError,
        commit_raises = None, rollback_raises = None, close_raises = None\<rparr>
      (fresh_world (''DB_EXISTING_CONNECTION = '' @ [SQ] @ ''SQLite'' @ [SQ, NL]))
    = (Some OperationalError, [Execute ''PRAGMA foreign_keys = ON;'', Rollback, Close],
       (fresh_world (''DB_EXISTING_CONNECTION = '' @ [SQ] @ ''SQLite'' @ [SQ, NL]))
         \<lparr>config_reads := 1\<rparr>)
   \<and> session_scope \<lparr>execute_raises = None, work_raises = Some ValueError,
        commit_raises = None, rollback_raises = None, close_raises = None\<rparr>
      (fresh_world (''DB_EXISTING_CONNECTION = '' @ [SQ] @ ''SQLite'' @ [SQ, NL]))
    = (Some ValueError, [Execute ''PRAGMA foreign_keys = ON;'', Close],
       (fresh_world (''DB_EXISTING_CONNECTION = '' @ [SQ] @ ''SQLite'' @ [SQ, NL]))
         \<lparr>config_reads := 1\<rparr>)
   \<and> fst (config_manager DB_EXISTING_CONNECTION VNone
        (fresh_world (''DB_EXISTING_CONNECTION = '' @ [SQ] @ ''SQLite'' @ [SQ, NL])))
      = Inr (VStr ''SQLite'')
   \<and> Rollback \<in> set [Execute ''PRAGMA foreign_keys = ON;'', Rollback, Close]
   \<and> Rollback \<notin> set [Execute ''PRAGMA foreign_keys = ON;'', Close]
   \<and> last [Execute ''PRAGMA foreign_keys = ON;'', Rollback, Close] = Close"
proof -
  define w where "w = fresh_world (''DB_EXISTING_CONNECTION = '' @ [SQ] @ ''SQLite'' @ [SQ, NL])"
  let ?env1 = "\<lparr>execute_raises = None, work_raises = Some OperationalError,
        commit_raises = None, rollback_raises = None, close_raises = None\<rparr>"
  let ?env2 = "\<lparr>execute_raises = None, work_raises = Some ValueError,
        commit_raises = None, rollback_raises = None, close_raises = None\<rparr>"
  have cm: "config_manager DB_EXISTING_CONNECTION VNone w
      = (Inr (VStr ''SQLite''), w\<lparr>config_reads := 1\<rparr>)"
    unfolding w_def by code_simp
  have s1: "session_scope ?env1 w
      = (Some OperationalError, [Execute ''PRAGMA foreign_keys = ON;'', Rollback, Close],
         w\<lparr>config_reads := 1\<rparr>)"
    by (simp add: session_scope_def session_try_def cm)
  have s2: "session_scope ?env2 w
      = (Some ValueError, [Execute ''PRAGMA foreign_keys = ON;'', Close],
         w\<lparr>config_reads := 1\<rparr>)"
    by (simp add: session_scope_def session_try_def cm)
  have k: "fst (config_manager DB_EXISTING_CONNECTION VNone w) = Inr (VStr ''SQLite'')"
    by (simp add: cm)
  from session_scope_paths [OF s1, of "VStr ''SQLite''" ValueError]
       session_scope_paths [OF s2, of "VStr ''SQLite''" ValueError]
  have "Rollback \<in> set [Execute ''PRAGMA foreign_keys = ON;'', Rollback, Close]
      \<and> Rollback \<notin> set [Execute ''PRAGMA foreign_keys = ON;'', Close]
      \<and> last [Execute ''PRAGMA foreign_keys = ON;'', Rollback, Close] = Close"
    using k by simp
  with s1 s2 k show ?thesis
    unfolding w_def by blast
qed

end
